theory Spec2Isabelle
  imports Complex_Main
begin

section \<open>Robots (robots.h)\<close>

text \<open>
  The C++ \<open>double\<close> fields are modelled as \<open>real\<close> (exact arithmetic, \<open>M_PI\<close> as \<open>pi\<close>),
  the C++ \<open>int\<close> fields as \<open>int\<close> (the values used below stay far from the bounds of a
  32-bit integer).  A conversion \<open>double \<rightarrow> int\<close> truncates toward zero.
\<close>

definition double_to_int :: "real \<Rightarrow> int" where
  "double_to_int x = (if 0 \<le> x then \<lfloor>x\<rfloor> else \<lceil>x\<rceil>)"

datatype RotationDirection = NoRotation | RotateLeft | RotateRight

datatype QColor = Blue | Magenta | OtherColor nat

text \<open>class Robot: the fields shared by both kinds of robot.\<close>

record Robot =
  positionX :: real
  positionY :: real
  speed :: int
  color :: QColor
  isMoving :: bool

text \<open>\<open>Robot::boundingRect\<close> is \<open>QRectF(-20, -20, 40, 40)\<close> in item coordinates.\<close>

record QRectF =
  rx :: real
  ry :: real
  rw :: real
  rh :: real

definition boundingRect :: QRectF where
  "boundingRect = \<lparr>rx = -20, ry = -20, rw = 40, rh = 40\<rparr>"

text \<open>\<open>Robot::rotatePoint\<close>: rotation of a point about the origin.\<close>

definition rotatePoint :: "real \<times> real \<Rightarrow> real \<Rightarrow> real \<times> real" where
  "rotatePoint point angle =
     (cos angle * fst point - sin angle * snd point,
      sin angle * fst point + cos angle * snd point)"

definition setColor :: "QColor \<Rightarrow> 'a Robot_scheme \<Rightarrow> 'a Robot_scheme" where
  "setColor newColor r = (if color r \<noteq> newColor then r\<lparr>color := newColor\<rparr> else r)"

subsection \<open>AutonomousRobot\<close>

record AutonomousRobot = Robot +
  a_detectionRadius :: real
  a_avoidanceAngle :: real
  a_angle :: int
  a_orientation :: int

definition AutonomousRobot_new ::
  "real \<Rightarrow> real \<Rightarrow> int \<Rightarrow> real \<Rightarrow> real \<Rightarrow> int \<Rightarrow> AutonomousRobot" where
  "AutonomousRobot_new posX posY orient detectRadius avoidAngle spd =
     \<lparr>positionX = posX, positionY = posY, speed = spd, color = Blue, isMoving = False,
      a_detectionRadius = detectRadius, a_avoidanceAngle = avoidAngle,
      a_angle = double_to_int avoidAngle,
      a_orientation =
        (if orient = 0 then 270
         else if orient = 1 then 0
         else if orient = 2 then 90
         else if orient = 3 then 180
         else 0)\<rparr>"

text \<open>
  \<open>AutonomousRobot::update\<close>.  The body of \<open>detectObstacle\<close> is not part of the sources, so
  the test is a parameter: it is applied to the robot as it stands when the source calls
  it, that is after the move, \<open>setPos\<close> and the normalisation.
\<close>

definition AutonomousRobot_update ::
  "(AutonomousRobot \<Rightarrow> bool) \<Rightarrow> AutonomousRobot \<Rightarrow> AutonomousRobot" where
  "AutonomousRobot_update detectObstacle r =
     (let radAngle = real_of_int (a_orientation r) * pi / 180;
          targetX = positionX r + real_of_int (speed r) * cos radAngle;
          targetY = positionY r + real_of_int (speed r) * sin radAngle;
          r1 = r\<lparr>positionX := positionX r + 0.1 * (targetX - positionX r)\<rparr>;
          r2 = r1\<lparr>positionY := positionY r1 + 0.1 * (targetY - positionY r1)\<rparr>;
          r3 = (if a_orientation r2 < 0 then r2\<lparr>a_orientation := a_orientation r2 + 360\<rparr> else r2);
          r4 = (if a_orientation r3 \<ge> 360 then r3\<lparr>a_orientation := a_orientation r3 - 360\<rparr> else r3)
      in if detectObstacle r4
         then r4\<lparr>a_orientation :=
                  double_to_int (real_of_int (a_orientation r4) + a_avoidanceAngle r4)\<rparr>
         else r4)"

subsection \<open>RemoteRobot\<close>

record RemoteRobot = Robot +
  r_orientation :: int
  r_detectionRadius :: real
  rotationDirection :: RotationDirection

definition RemoteRobot_new :: "real \<Rightarrow> real \<Rightarrow> int \<Rightarrow> real \<Rightarrow> RemoteRobot" where
  "RemoteRobot_new posX posY spd detectionRadius =
     \<lparr>positionX = posX, positionY = posY, speed = spd, color = Magenta, isMoving = False,
      r_orientation = 0, r_detectionRadius = detectionRadius,
      rotationDirection = NoRotation\<rparr>"

text \<open>
  Modelled from the spec: the bodies of \<open>RemoteRobot::stop\<close> and
  \<open>RemoteRobot::moveForward\<close> are not part of the sources.  The specification says that
  \<open>moveForward()\<close> sets moving to true and \<open>stop()\<close> sets moving to false.
\<close>

definition stop :: "RemoteRobot \<Rightarrow> RemoteRobot" where
  "stop r = r\<lparr>isMoving := False\<rparr>"

definition moveForward :: "RemoteRobot \<Rightarrow> RemoteRobot" where
  "moveForward r = r\<lparr>isMoving := True\<rparr>"

text \<open>
  Modelled from the spec: the body of \<open>RemoteRobot::getRotationDirection\<close> is not part of
  the sources; it reads the rotation intent the robot carries.
\<close>

definition getRotationDirection :: "RemoteRobot \<Rightarrow> RotationDirection" where
  "getRotationDirection r = rotationDirection r"

text \<open>\<open>RemoteRobot::update\<close>, with \<open>detectObstacle\<close> a parameter as above.\<close>

definition RemoteRobot_update :: "(RemoteRobot \<Rightarrow> bool) \<Rightarrow> RemoteRobot \<Rightarrow> RemoteRobot" where
  "RemoteRobot_update detectObstacle r =
     (let radAngle = real_of_int (r_orientation r) * pi / 180;
          targetX = positionX r + real_of_int (speed r) * cos radAngle;
          targetY = positionY r + real_of_int (speed r) * sin radAngle;
          r1 = r\<lparr>positionX := positionX r + 0.1 * (targetX - positionX r)\<rparr>;
          r2 = r1\<lparr>positionY := positionY r1 + 0.1 * (targetY - positionY r1)\<rparr>
      in if detectObstacle r2 then stop r2 else r2)"

text \<open>
  The target point the two \<open>update\<close> bodies compute in their local variables
  \<open>targetX\<close>, \<open>targetY\<close>, and the Euclidean distance of two points.
\<close>

definition target :: "real \<Rightarrow> real \<Rightarrow> int \<Rightarrow> int \<Rightarrow> real \<times> real" where
  "target x y s theta =
     (x + real_of_int s * cos (real_of_int theta * pi / 180),
      y + real_of_int s * sin (real_of_int theta * pi / 180))"

definition position :: "'a Robot_scheme \<Rightarrow> real \<times> real" where
  "position r = (positionX r, positionY r)"

definition distance :: "real \<times> real \<Rightarrow> real \<times> real \<Rightarrow> real" where
  "distance p q = sqrt ((fst q - fst p)\<^sup>2 + (snd q - snd p)\<^sup>2)"

subsection \<open>The field of vision drawn by \<open>paint\<close>\<close>

text \<open>
  \<open>AutonomousRobot::paint\<close> and \<open>RemoteRobot::paint\<close> compute the trapezoid with the same
  statements; \<open>viewField\<close> is that computation, returning the corners in the order the
  path visits them: \<open>baseLeft\<close>, \<open>baseRight\<close>, \<open>topRight\<close>, \<open>topLeft\<close>.
\<close>

definition halfTopWidth :: "real \<Rightarrow> real" where
  "halfTopWidth detectionRadius = detectionRadius * tan (pi / 6)"

definition halfBaseWidth :: "real \<Rightarrow> real" where
  "halfBaseWidth detectionRadius =
     (let robotRadius = 20;
          halfBaseWidth = halfTopWidth detectionRadius / 4
      in if halfBaseWidth > robotRadius / 3 then robotRadius / 3 else halfBaseWidth)"

definition viewField :: "int \<Rightarrow> real \<Rightarrow> (real \<times> real) list" where
  "viewField orientation detectionRadius =
     (let radOrientation = real_of_int orientation * pi / 180;
          robotRadius = 20;
          baseLeft = (robotRadius, - halfBaseWidth detectionRadius);
          baseRight = (robotRadius, halfBaseWidth detectionRadius);
          topRight = (detectionRadius + robotRadius, halfTopWidth detectionRadius);
          topLeft = (detectionRadius + robotRadius, - halfTopWidth detectionRadius)
      in [rotatePoint baseLeft radOrientation, rotatePoint baseRight radOrientation,
          rotatePoint topRight radOrientation, rotatePoint topLeft radOrientation])"

definition AutonomousRobot_paint :: "AutonomousRobot \<Rightarrow> (real \<times> real) list" where
  "AutonomousRobot_paint r = viewField (a_orientation r) (a_detectionRadius r)"

definition RemoteRobot_paint :: "RemoteRobot \<Rightarrow> (real \<times> real) list" where
  "RemoteRobot_paint r = viewField (r_orientation r) (r_detectionRadius r)"

section \<open>The main window (mainwindow.cpp)\<close>

text \<open>
  Modelled from the spec: the constructor of \<open>Obstacle\<close> is declared in obstacle.h and its
  body is not part of the sources.  The specification describes an obstacle as an
  axis-aligned square given by its top-left corner and its side length.
\<close>

record Obstacle =
  ob_x :: real
  ob_y :: real
  ob_width :: real

definition Obstacle_new :: "real \<Rightarrow> real \<Rightarrow> real \<Rightarrow> Obstacle" where
  "Obstacle_new x y width = \<lparr>ob_x = x, ob_y = y, ob_width = width\<rparr>"

datatype UpdateCall = AutonomousUpdate nat | RemoteUpdate nat

text \<open>
  The state of the window: the graphics scene holds the obstacles and the robots of the
  two lists (the lists and the scene point to the same robot objects); \<open>selectedRobot\<close>
  is the index in \<open>remoteRobots\<close> of the robot the pointer designates.  \<open>updateCalls\<close> is
  a ghost field: it records each call of \<open>Robot::update\<close> made by \<open>updateRobots\<close>.
\<close>

record MainWindow =
  obstacles :: "Obstacle list"
  autonomousRobots :: "AutonomousRobot list"
  remoteRobots :: "RemoteRobot list"
  selectedRobot :: "nat option"
  timerActive :: bool
  updateCalls :: "UpdateCall list"

datatype QGraphicsItem =
  ItemAutonomous AutonomousRobot | ItemRemote RemoteRobot | ItemObstacle Obstacle

fun isRobot :: "QGraphicsItem \<Rightarrow> bool" where
  "isRobot (ItemAutonomous r) = True"
| "isRobot (ItemRemote r) = True"
| "isRobot (ItemObstacle ob) = False"

fun isObstacle :: "QGraphicsItem \<Rightarrow> bool" where
  "isObstacle (ItemObstacle ob) = True"
| "isObstacle item = False"

definition sceneItems :: "MainWindow \<Rightarrow> QGraphicsItem list" where
  "sceneItems w =
     map ItemAutonomous (autonomousRobots w) @ map ItemRemote (remoteRobots w)
     @ map ItemObstacle (obstacles w)"

text \<open>
  The bounding region of an item in scene coordinates: \<open>boundingRect\<close> moved to the
  position given to \<open>setPos\<close> for a robot, the square itself for an obstacle.
\<close>

definition translated :: "QRectF \<Rightarrow> real \<Rightarrow> real \<Rightarrow> QRectF" where
  "translated r dx dy = r\<lparr>rx := rx r + dx, ry := ry r + dy\<rparr>"

fun sceneBoundingRect :: "QGraphicsItem \<Rightarrow> QRectF" where
  "sceneBoundingRect (ItemAutonomous r) = translated boundingRect (positionX r) (positionY r)"
| "sceneBoundingRect (ItemRemote r) = translated boundingRect (positionX r) (positionY r)"
| "sceneBoundingRect (ItemObstacle ob) =
     \<lparr>rx = ob_x ob, ry = ob_y ob, rw = ob_width ob, rh = ob_width ob\<rparr>"

text \<open>
  \<open>QRectF::intersects\<close> of the Qt library: two rectangles intersect when they share a
  region of positive area; a rectangle of width or height zero intersects nothing.
\<close>

definition intersects :: "QRectF \<Rightarrow> QRectF \<Rightarrow> bool" where
  "intersects a b =
     (let l1 = (if rw a < 0 then rx a + rw a else rx a);
          r1 = (if rw a < 0 then rx a else rx a + rw a);
          l2 = (if rw b < 0 then rx b + rw b else rx b);
          r2 = (if rw b < 0 then rx b else rx b + rw b);
          t1 = (if rh a < 0 then ry a + rh a else ry a);
          b1 = (if rh a < 0 then ry a else ry a + rh a);
          t2 = (if rh b < 0 then ry b + rh b else ry b);
          b2 = (if rh b < 0 then ry b else ry b + rh b)
      in if l1 = r1 \<or> l2 = r2 then False
         else if l1 \<ge> r2 \<or> l2 \<ge> r1 then False
         else if t1 = b1 \<or> t2 = b2 then False
         else if t1 \<ge> b2 \<or> t2 \<ge> b1 then False
         else True)"

text \<open>\<open>QGraphicsScene::items(rect)\<close>: the items whose bounding region intersects \<open>rect\<close>.\<close>

definition items :: "MainWindow \<Rightarrow> QRectF \<Rightarrow> QGraphicsItem list" where
  "items w rect = filter (\<lambda>item. intersects rect (sceneBoundingRect item)) (sceneItems w)"

text \<open>
  The loop over \<open>foundItems\<close> of \<open>createObstacle\<close> and \<open>createRobot\<close>; the pair is
  (\<open>robotFound\<close>, \<open>obstacleFound\<close>).
\<close>

definition classify :: "QGraphicsItem list \<Rightarrow> bool \<times> bool" where
  "classify foundItems =
     fold (\<lambda>item (robotFound, obstacleFound).
             if isRobot item then (True, obstacleFound)
             else if isObstacle item then (robotFound, True)
             else (robotFound, obstacleFound))
          foundItems (False, False)"

text \<open>
  \<open>MainWindow::createObstacle\<close>.  The argument is what the dialog returned: \<open>None\<close> when it
  was not accepted, otherwise \<open>x\<close>, \<open>y\<close> and \<open>width\<close>.  The result is the new state and
  the text of the warning box, if one was shown.
\<close>

definition createObstacle ::
  "(int \<times> int \<times> int) option \<Rightarrow> MainWindow \<Rightarrow> MainWindow \<times> string option" where
  "createObstacle dialog w =
     (case dialog of
        None \<Rightarrow> (w, None)
      | Some (x, y, width) \<Rightarrow>
          (let creationObstacleArea =
                 \<lparr>rx = real_of_int x, ry = real_of_int y,
                  rw = real_of_int width, rh = real_of_int width\<rparr>;
               foundItems = items w creationObstacleArea
           in if foundItems \<noteq> []
              then (let (robotFound, obstacleFound) = classify foundItems;
                        message = ''Cannot place an obstacle here. The space is already occupied by ''
                      in (w, Some (message @
                            (if robotFound \<and> obstacleFound then ''another robot and an obstacle.''
                             else if robotFound then ''another robot.''
                             else if obstacleFound then ''another obstacle.''
                             else []))))
              else (w\<lparr>obstacles := obstacles w @
                        [Obstacle_new (real_of_int x) (real_of_int y) (real_of_int width)]\<rparr>,
                    None)))"

record CreateRobotDialog =
  getRobotType :: int
  getOrientation :: int
  getSpeed :: int
  getDetectionRadius :: real
  getX :: real
  getY :: real
  getAvoidanceAngle :: real

text \<open>\<open>MainWindow::createRobot\<close>, with the same conventions.\<close>

definition createRobot ::
  "CreateRobotDialog option \<Rightarrow> MainWindow \<Rightarrow> MainWindow \<times> string option" where
  "createRobot dialog w =
     (case dialog of
        None \<Rightarrow> (w, None)
      | Some d \<Rightarrow>
          (let robotType = getRobotType d;
               orientation = getOrientation d;
               speed = getSpeed d;
               detectionRadius = getDetectionRadius d;
               x = getX d;
               y = getY d;
               creationArea = \<lparr>rx = x - 20, ry = y - 20, rw = 40, rh = 40\<rparr>;
               foundItems = items w creationArea
           in if foundItems \<noteq> []
              then (let (robotFound, obstacleFound) = classify foundItems;
                        message = ''Cannot place a robot here. The space is already occupied by ''
                      in (w, Some (message @
                            (if robotFound \<and> obstacleFound then ''another robot and an obstacle.''
                             else if robotFound then ''another robot.''
                             else if obstacleFound then ''an obstacle.''
                             else []))))
              else if robotType = 0
              then (w\<lparr>autonomousRobots := autonomousRobots w @
                        [AutonomousRobot_new x y orientation detectionRadius
                           (getAvoidanceAngle d) speed]\<rparr>,
                    None)
              else (w\<lparr>remoteRobots := remoteRobots w @
                        [RemoteRobot_new x y speed detectionRadius]\<rparr>,
                    None)))"

subsection \<open>Remote control and the simulation tick\<close>

text \<open>
  The member functions \<open>RemoteRobot::rotateRight\<close>, \<open>RemoteRobot::rotateLeft\<close> and the two
  \<open>detectObstacle\<close> are declared in robots.h and their bodies are not part of the sources.
  They are parameters of the model: a rotation command acts on the robot it is called on,
  and a detection test reads the scene and the robot it is called on.
\<close>

record RobotBodies =
  rotateRight :: "RemoteRobot \<Rightarrow> RemoteRobot"
  rotateLeft :: "RemoteRobot \<Rightarrow> RemoteRobot"
  detectObstacleA :: "MainWindow \<Rightarrow> AutonomousRobot \<Rightarrow> bool"
  detectObstacleR :: "MainWindow \<Rightarrow> RemoteRobot \<Rightarrow> bool"

definition onSelected :: "(RemoteRobot \<Rightarrow> RemoteRobot) \<Rightarrow> MainWindow \<Rightarrow> MainWindow" where
  "onSelected f w =
     (case selectedRobot w of
        None \<Rightarrow> w
      | Some k \<Rightarrow>
          if k < length (remoteRobots w)
          then w\<lparr>remoteRobots := (remoteRobots w)[k := f (remoteRobots w ! k)]\<rparr>
          else w)"

definition selectRobot :: "nat \<Rightarrow> MainWindow \<Rightarrow> MainWindow" where
  "selectRobot robot w = w\<lparr>selectedRobot := Some robot\<rparr>"


definition rotateRobotRight :: "RobotBodies \<Rightarrow> MainWindow \<Rightarrow> MainWindow" where
  "rotateRobotRight b w =
     (if selectedRobot w \<noteq> None \<and> timerActive w then onSelected (rotateRight b) w else w)"

definition rotateRobotLeft :: "RobotBodies \<Rightarrow> MainWindow \<Rightarrow> MainWindow" where
  "rotateRobotLeft b w =
     (if selectedRobot w \<noteq> None \<and> timerActive w then onSelected (rotateLeft b) w else w)"

definition stopRobot :: "MainWindow \<Rightarrow> MainWindow" where
  "stopRobot w = (if selectedRobot w \<noteq> None then onSelected stop w else w)"

definition startSimulation :: "MainWindow \<Rightarrow> MainWindow" where
  "startSimulation w = (if \<not> timerActive w then w\<lparr>timerActive := True\<rparr> else w)"

definition stopSimulation :: "MainWindow \<Rightarrow> MainWindow" where
  "stopSimulation w = (if timerActive w then w\<lparr>timerActive := False\<rparr> else w)"

text \<open>
  \<open>MainWindow::updateRobots\<close>: the body of the first loop for the robot at index \<open>i\<close>, the
  body of the second loop for the robot at index \<open>j\<close>, and the two loops in sequence.
\<close>

definition updateAutonomous :: "RobotBodies \<Rightarrow> nat \<Rightarrow> MainWindow \<Rightarrow> MainWindow" where
  "updateAutonomous b i w =
     w\<lparr>autonomousRobots :=
         (autonomousRobots w)
           [i := AutonomousRobot_update (detectObstacleA b w) (autonomousRobots w ! i)],
       updateCalls := updateCalls w @ [AutonomousUpdate i]\<rparr>"

definition updateRemote :: "RobotBodies \<Rightarrow> nat \<Rightarrow> MainWindow \<Rightarrow> MainWindow" where
  "updateRemote b j w =
     (let w1 = (if getRotationDirection (remoteRobots w ! j) = RotateRight
                then rotateRobotRight b w
                else if getRotationDirection (remoteRobots w ! j) = RotateLeft
                then rotateRobotLeft b w
                else w)
      in if isMoving (remoteRobots w1 ! j)
         then w1\<lparr>remoteRobots :=
                   (remoteRobots w1)
                     [j := RemoteRobot_update (detectObstacleR b w1) (remoteRobots w1 ! j)],
                 updateCalls := updateCalls w1 @ [RemoteUpdate j]\<rparr>
         else w1)"

definition updateRobots :: "RobotBodies \<Rightarrow> MainWindow \<Rightarrow> MainWindow" where
  "updateRobots b w =
     (let w1 = fold (updateAutonomous b) [0..<length (autonomousRobots w)] w
      in fold (updateRemote b) [0..<length (remoteRobots w1)] w1)"

definition clearScene :: "MainWindow \<Rightarrow> MainWindow" where
  "clearScene w =
     w\<lparr>obstacles := [], autonomousRobots := [], remoteRobots := [], selectedRobot := None\<rparr>"

subsection \<open>Loading a scene from a file\<close>

text \<open>
  The \<open>QString\<close> operations of the Qt library that the loader uses, on \<open>string\<close>.
  \<open>toInt\<close> and \<open>toDouble\<close> return zero when the text is not a number; \<open>toDouble\<close> reads
  decimal notation with an optional fraction and an optional exponent.
\<close>

definition newline :: char where
  "newline = CHR 0x0A"

definition isSpace :: "char \<Rightarrow> bool" where
  "isSpace c = (c \<in> {CHR '' '', CHR 0x09, CHR 0x0A, CHR 0x0B, CHR 0x0C, CHR 0x0D})"

definition trimmed :: "string \<Rightarrow> string" where
  "trimmed s = rev (dropWhile isSpace (rev (dropWhile isSpace s)))"

fun split :: "char \<Rightarrow> string \<Rightarrow> string list" where
  "split sep [] = [[]]"
| "split sep (c # cs) =
     (if c = sep then [] # split sep cs
      else (case split sep cs of [] \<Rightarrow> [[c]] | p # ps \<Rightarrow> (c # p) # ps))"

definition startsWith :: "string \<Rightarrow> string \<Rightarrow> bool" where
  "startsWith s p = (take (length p) s = p)"

definition endsWith :: "string \<Rightarrow> string \<Rightarrow> bool" where
  "endsWith s p = (length p \<le> length s \<and> drop (length s - length p) s = p)"

definition isDigit :: "char \<Rightarrow> bool" where
  "isDigit c = (48 \<le> (of_char c :: nat) \<and> (of_char c :: nat) \<le> 57)"

definition digitsValue :: "string \<Rightarrow> nat" where
  "digitsValue s = fold (\<lambda>c n. 10 * n + (of_char c - 48)) s 0"

definition signOf :: "string \<Rightarrow> bool \<times> string" where
  "signOf s =
     (case s of
        [] \<Rightarrow> (False, [])
      | c # cs \<Rightarrow>
          if c = CHR ''-'' then (True, cs)
          else if c = CHR ''+'' then (False, cs)
          else (False, s))"

definition toInt :: "string \<Rightarrow> int" where
  "toInt s =
     (let (neg, u) = signOf (trimmed s)
      in if u \<noteq> [] \<and> list_all isDigit u
         then (let v = (if neg then - int (digitsValue u) else int (digitsValue u))
               in if - 2147483648 \<le> v \<and> v \<le> 2147483647 then v else 0)
         else 0)"

definition toDouble :: "string \<Rightarrow> real" where
  "toDouble s =
     (let (neg, u) = signOf (trimmed s);
          ip = takeWhile isDigit u;
          rest1 = dropWhile isDigit u;
          fp = (case rest1 of
                  [] \<Rightarrow> []
                | c # cs \<Rightarrow> if c = CHR ''.'' then takeWhile isDigit cs else []);
          rest2 = (case rest1 of
                     [] \<Rightarrow> []
                   | c # cs \<Rightarrow> if c = CHR ''.'' then dropWhile isDigit cs else rest1);
          mantissa = real (digitsValue (ip @ fp)) / 10 ^ length fp;
          signed = (if neg then - mantissa else mantissa)
      in if ip = [] \<and> fp = [] then 0
         else (case rest2 of
                 [] \<Rightarrow> signed
               | c # cs \<Rightarrow>
                   if c = CHR ''e'' \<or> c = CHR ''E''
                   then (let (eneg, ed) = signOf cs
                         in if ed \<noteq> [] \<and> list_all isDigit ed
                            then (if eneg then signed / 10 ^ digitsValue ed
                                  else signed * 10 ^ digitsValue ed)
                            else 0)
                   else 0))"

text \<open>\<open>QMap::value(key)\<close>: the value stored under the key, or an empty string.\<close>

definition valueOf :: "(string \<rightharpoonup> string) \<Rightarrow> string \<Rightarrow> string" where
  "valueOf params key = (case params key of None \<Rightarrow> [] | Some v \<Rightarrow> v)"

text \<open>\<open>MainWindow::parseAttributes\<close>.\<close>

definition parseAttributes :: "string \<Rightarrow> (string \<rightharpoonup> string)" where
  "parseAttributes attributes =
     (let rawLines = split newline attributes;
          lines = filter (\<lambda>line. trimmed line \<noteq> []) rawLines
      in fold (\<lambda>line params.
                 (let parts = split (CHR ''='') line
                  in if length parts = 2
                     then params(trimmed (parts ! 0) \<mapsto> trimmed (parts ! 1))
                     else params))
              lines Map.empty)"

text \<open>\<open>MainWindow::processObject\<close>.\<close>

definition processObject :: "string \<Rightarrow> string \<Rightarrow> MainWindow \<Rightarrow> MainWindow" where
  "processObject type attributes w =
     (let params = parseAttributes attributes;
          x = toInt (valueOf params ''positionX'');
          y = toInt (valueOf params ''positionY'');
          speed = toInt (valueOf params ''speed'');
          orientation = toInt (valueOf params ''orientation'');
          detectionRadius = toDouble (valueOf params ''detectionRadius'');
          avoidanceAngle = toDouble (valueOf params ''avoidanceAngle'');
          size = toInt (valueOf params ''width'')
      in if type = ''AutonomousRobot''
         then w\<lparr>autonomousRobots := autonomousRobots w @
                   [AutonomousRobot_new (real_of_int x) (real_of_int y) orientation
                      detectionRadius avoidanceAngle speed]\<rparr>
         else if type = ''RemoteRobot''
         then w\<lparr>remoteRobots := remoteRobots w @
                   [RemoteRobot_new (real_of_int x) (real_of_int y) speed detectionRadius]\<rparr>
         else if type = ''Obstacle''
         then w\<lparr>obstacles := obstacles w @
                   [Obstacle_new (real_of_int x) (real_of_int y) (real_of_int size)]\<rparr>
         else w)"

text \<open>
  \<open>MainWindow::loadSceneFromFile\<close>: the loop over the lines of the file, with the
  local variables \<open>buffer\<close> and \<open>currentType\<close>; a file that cannot be opened is \<open>None\<close>.
\<close>

fun loadLines :: "string list \<Rightarrow> string \<Rightarrow> string \<Rightarrow> MainWindow \<Rightarrow> MainWindow" where
  "loadLines [] buffer currentType w = w"
| "loadLines (l # ls) buffer currentType w =
     (if trimmed l = [] \<or> startsWith (trimmed l) ''#''
      then loadLines ls buffer currentType w
      else if endsWith (trimmed l) ''{''
      then loadLines ls [] (trimmed (take (length (trimmed l) - 1) (trimmed l))) w
      else if startsWith (trimmed l) ''}''
      then (if currentType \<noteq> []
            then loadLines ls buffer [] (processObject currentType buffer w)
            else loadLines ls buffer currentType w)
      else loadLines ls (buffer @ trimmed l @ [newline]) currentType w)"

definition loadSceneFromFile :: "string list option \<Rightarrow> MainWindow \<Rightarrow> MainWindow" where
  "loadSceneFromFile file w =
     (case file of None \<Rightarrow> w | Some lines \<Rightarrow> loadLines lines [] [] w)"

text \<open>The empty scene of a new window.\<close>

definition emptyWindow :: MainWindow where
  "emptyWindow =
     \<lparr>obstacles = [], autonomousRobots = [], remoteRobots = [], selectedRobot = None,
      timerActive = False, updateCalls = []\<rparr>"

section \<open>Notions used to state the properties\<close>

text \<open>The target point of each kind of robot, from the fields \<open>update\<close> reads.\<close>

definition AutonomousRobot_target :: "AutonomousRobot \<Rightarrow> real \<times> real" where
  "AutonomousRobot_target r = target (positionX r) (positionY r) (speed r) (a_orientation r)"

definition RemoteRobot_target :: "RemoteRobot \<Rightarrow> real \<times> real" where
  "RemoteRobot_target r = target (positionX r) (positionY r) (speed r) (r_orientation r)"

text \<open>
  The point \<open>along\<close> units in the direction of the heading \<open>theta\<close> (radians) and \<open>across\<close>
  units perpendicular to it, from the centre of the robot.
\<close>

definition offset :: "real \<Rightarrow> real \<Rightarrow> real \<Rightarrow> real \<times> real" where
  "offset theta along across =
     (along * cos theta - across * sin theta, along * sin theta + across * cos theta)"

text \<open>
  The half-angle of the drawn cone: the angle between the heading and a far corner of the
  trapezoid, seen from the point where the heading leaves the body of the robot.  The far
  corner lies \<open>detectionRadius\<close> further along the heading and \<open>halfTopWidth\<close> across.
\<close>

definition coneHalfAngle :: "real \<Rightarrow> real" where
  "coneHalfAngle detectionRadius = arctan (halfTopWidth detectionRadius / detectionRadius)"

text \<open>The rectangles that \<open>createObstacle\<close> and \<open>createRobot\<close> test against the scene.\<close>

definition creationObstacleArea :: "int \<Rightarrow> int \<Rightarrow> int \<Rightarrow> QRectF" where
  "creationObstacleArea x y width =
     \<lparr>rx = real_of_int x, ry = real_of_int y, rw = real_of_int width, rh = real_of_int width\<rparr>"

definition creationArea :: "real \<Rightarrow> real \<Rightarrow> QRectF" where
  "creationArea x y = \<lparr>rx = x - 20, ry = y - 20, rw = 40, rh = 40\<rparr>"

text \<open>
  The end of the conflict message for a list of occupants; \<open>obstacleText\<close> is the wording
  for an obstacle alone, which differs between the two dialogs.
\<close>

definition occupant :: "QGraphicsItem list \<Rightarrow> string \<Rightarrow> string" where
  "occupant found obstacleText =
     (if list_ex isRobot found \<and> list_ex isObstacle found then ''another robot and an obstacle.''
      else if list_ex isRobot found then ''another robot.''
      else obstacleText)"

text \<open>
  The first statement of the second loop of \<open>updateRobots\<close>: the rotation command that the
  intent of robot \<open>j\<close> triggers.
\<close>

definition rotated :: "RobotBodies \<Rightarrow> nat \<Rightarrow> MainWindow \<Rightarrow> MainWindow" where
  "rotated b j w =
     (if getRotationDirection (remoteRobots w ! j) = RotateRight then rotateRobotRight b w
      else if getRotationDirection (remoteRobots w ! j) = RotateLeft then rotateRobotLeft b w
      else w)"

text \<open>
  Rotation commands that turn a robot on the spot: they change neither its position nor
  its moving flag.
\<close>

definition keepsStill :: "RobotBodies \<Rightarrow> bool" where
  "keepsStill b =
     (\<forall>r. isMoving (rotateRight b r) = isMoving r \<and> position (rotateRight b r) = position r
        \<and> isMoving (rotateLeft b r) = isMoving r \<and> position (rotateLeft b r) = position r)"

text \<open>No remote robot of the scene carries a rotation intent.\<close>

definition noPendingRotation :: "MainWindow \<Rightarrow> bool" where
  "noPendingRotation w = list_all (\<lambda>r. rotationDirection r = NoRotation) (remoteRobots w)"

text \<open>
  No remote robot at or before index \<open>j\<close> of the list carries a rotation intent: the
  robots that the loop of \<open>updateRobots\<close> reaches before it calls \<open>update\<close> on robot \<open>j\<close>.
\<close>

definition noRotationUpTo :: "nat \<Rightarrow> MainWindow \<Rightarrow> bool" where
  "noRotationUpTo j w =
     list_all (\<lambda>r. rotationDirection r = NoRotation) (take (Suc j) (remoteRobots w))"

subsection \<open>Sample data\<close>

text \<open>
  One instance of the bodies that the sources do not contain, after the words of the
  specification: a rotation command sets the rotation intent; nothing is detected.
\<close>

definition specBodies :: RobotBodies where
  "specBodies =
     \<lparr>rotateRight = (\<lambda>r. r\<lparr>rotationDirection := RotateRight\<rparr>),
      rotateLeft = (\<lambda>r. r\<lparr>rotationDirection := RotateLeft\<rparr>),
      detectObstacleA = (\<lambda>w r. False),
      detectObstacleR = (\<lambda>w r. False)\<rparr>"


definition sampleAutonomous :: AutonomousRobot where
  "sampleAutonomous = AutonomousRobot_new 100 100 1 50 15 10"

definition sampleRemote :: RemoteRobot where
  "sampleRemote = RemoteRobot_new 100 100 10 50"

text \<open>A scene with one obstacle and one remote robot, and a dialog for a robot at (110, 110).\<close>

definition occupiedScene :: MainWindow where
  "occupiedScene =
     emptyWindow\<lparr>obstacles := [Obstacle_new 10 10 20],
                 remoteRobots := [RemoteRobot_new 100 100 5 50]\<rparr>"

definition sampleDialog :: CreateRobotDialog where
  "sampleDialog =
     \<lparr>getRobotType = 0, getOrientation = 1, getSpeed = 5, getDetectionRadius = 50,
      getX = 110, getY = 110, getAvoidanceAngle = 15\<rparr>"

definition remoteDialog :: CreateRobotDialog where
  "remoteDialog =
     \<lparr>getRobotType = 1, getOrientation = 2, getSpeed = 5, getDetectionRadius = 50,
      getX = 500, getY = 500, getAvoidanceAngle = 0\<rparr>"

text \<open>A running scene with one selected remote robot, which stands still.\<close>

definition oneRobot :: MainWindow where
  "oneRobot =
     emptyWindow\<lparr>remoteRobots := [sampleRemote], selectedRobot := Some 0, timerActive := True\<rparr>"

text \<open>A running scene with an autonomous robot, a standing and a moving remote robot.\<close>

definition mixedScene :: MainWindow where
  "mixedScene =
     emptyWindow\<lparr>autonomousRobots := [sampleAutonomous],
                 remoteRobots := [sampleRemote, moveForward (RemoteRobot_new 300 300 5 50)],
                 timerActive := True\<rparr>"

text \<open>
  A running scene with two remote robots: the first carries the intent \<open>RotateRight\<close>, the
  second is the selected one.
\<close>

definition robotA :: RemoteRobot where
  "robotA = (RemoteRobot_new 100 100 5 50)\<lparr>rotationDirection := RotateRight\<rparr>"

definition robotB :: RemoteRobot where
  "robotB = RemoteRobot_new 300 300 5 50"

definition twoRobots :: MainWindow where
  "twoRobots =
     emptyWindow\<lparr>remoteRobots := [robotA, robotB], selectedRobot := Some 1,
                 timerActive := True\<rparr>"



text \<open>A scene file with the same obstacle block twice.\<close>

definition twoObstaclesFile :: "string list" where
  "twoObstaclesFile =
     [''Obstacle {'', ''positionX = 10'', ''positionY = 10'', ''width = 20'', ''}'',
      ''Obstacle {'', ''positionX = 10'', ''positionY = 10'', ''width = 20'', ''}'']"

text \<open>Attribute blocks: one with an unknown key, two that differ in the orientation.\<close>

definition colourBlock :: string where
  "colourBlock = ''colour = red'' @ [newline]"

definition orientation2Block :: string where
  "orientation2Block = ''orientation = 2'' @ [newline]"

definition orientation3Block :: string where
  "orientation3Block = ''orientation = 3'' @ [newline]"

section \<open>Motion: one update of a robot\<close>

lemma sq_cos_sin:
  fixes k v a :: real
  shows "(k * (v * cos a))\<^sup>2 + (k * (v * sin a))\<^sup>2 = (k * v)\<^sup>2"
proof -
  have "(k * (v * cos a))\<^sup>2 + (k * (v * sin a))\<^sup>2
        = (k * v)\<^sup>2 * (cos a)\<^sup>2 + (k * v)\<^sup>2 * (sin a)\<^sup>2"
    by (simp add: power_mult_distrib)
  also have "\<dots> = (k * v)\<^sup>2 * ((cos a)\<^sup>2 + (sin a)\<^sup>2)"
    by (simp only: distrib_left)
  also have "\<dots> = (k * v)\<^sup>2"
    by (simp only: cos_squared_eq) simp
  finally show ?thesis .
qed

text \<open>
  A tenth of the way from a point to its target, for a positive speed: the new point is
  neither end, lies a tenth of the distance from the start, and the two parts add up to
  the whole distance.
\<close>

lemma tenth_between:
  fixes x y :: real and s theta :: int
  defines "T \<equiv> target x y s theta"
  defines "N \<equiv> (x + 0.1 * (fst T - x), y + 0.1 * (snd T - y))"
  assumes "0 < s"
  shows "N \<noteq> (x, y) \<and> N \<noteq> T \<and> distance (x, y) N = 0.1 * distance (x, y) T
     \<and> distance (x, y) N + distance N T = distance (x, y) T"
proof -
  let ?a = "real_of_int theta * pi / 180"
  let ?v = "real_of_int s"
  have v: "0 < ?v" using assms by simp
  have d1: "distance (x, y) T = ?v"
    using v sq_cos_sin[of 1 ?v ?a] by (simp add: distance_def T_def target_def)
  have d2: "distance (x, y) N = 0.1 * ?v"
    using v sq_cos_sin[of "1/10" ?v ?a] by (simp add: distance_def T_def N_def target_def)
  have e: "fst T - fst N = 0.9 * (?v * cos ?a)" "snd T - snd N = 0.9 * (?v * sin ?a)"
    by (simp_all add: T_def N_def target_def)
  have d3: "distance N T = 0.9 * ?v"
    unfolding distance_def e using v sq_cos_sin[of "9/10" ?v ?a] by simp
  have n1: "N \<noteq> (x, y)"
  proof
    assume "N = (x, y)"
    then have "distance (x, y) N = 0" by (simp add: distance_def)
    with d2 v show False by simp
  qed
  have n2: "N \<noteq> T"
  proof
    assume "N = T"
    then have "distance N T = 0" by (simp add: distance_def)
    with d3 v show False by simp
  qed
  from n1 n2 d1 d2 d3 show ?thesis by simp
qed

lemma AutonomousRobot_update_position:
  "position (AutonomousRobot_update detect r) =
     (positionX r + 0.1 * (fst (AutonomousRobot_target r) - positionX r),
      positionY r + 0.1 * (snd (AutonomousRobot_target r) - positionY r))"
  by (simp add: AutonomousRobot_update_def Let_def position_def target_def
      AutonomousRobot_target_def)

lemma RemoteRobot_update_position:
  "position (RemoteRobot_update detect r) =
     (positionX r + 0.1 * (fst (RemoteRobot_target r) - positionX r),
      positionY r + 0.1 * (snd (RemoteRobot_target r) - positionY r))"
  by (simp add: RemoteRobot_update_def Let_def position_def target_def stop_def
      RemoteRobot_target_def)

text \<open>
  C1.  One update of a robot, autonomous or remote, with speed \<open>s\<close> and orientation
  \<open>theta\<close> degrees puts the robot at \<open>position + 0.1 * (target - position)\<close>, where
  \<open>target = position + s * (cos theta, sin theta)\<close>.  When \<open>s > 0\<close> the new position lies
  strictly between the old position and the target, at exactly a tenth of the distance
  to the target.  (The coordinates are real numbers here, not floating-point numbers.)
\<close>

theorem update_interpolates:
  "position (AutonomousRobot_update da ra) =
     (positionX ra + 0.1 * (fst (AutonomousRobot_target ra) - positionX ra),
      positionY ra + 0.1 * (snd (AutonomousRobot_target ra) - positionY ra))
   \<and> position (RemoteRobot_update dr rr) =
     (positionX rr + 0.1 * (fst (RemoteRobot_target rr) - positionX rr),
      positionY rr + 0.1 * (snd (RemoteRobot_target rr) - positionY rr))
   \<and> (0 < speed ra \<longrightarrow>
        position (AutonomousRobot_update da ra) \<noteq> position ra
      \<and> position (AutonomousRobot_update da ra) \<noteq> AutonomousRobot_target ra
      \<and> distance (position ra) (position (AutonomousRobot_update da ra))
          = 0.1 * distance (position ra) (AutonomousRobot_target ra)
      \<and> distance (position ra) (position (AutonomousRobot_update da ra))
          + distance (position (AutonomousRobot_update da ra)) (AutonomousRobot_target ra)
          = distance (position ra) (AutonomousRobot_target ra))
   \<and> (0 < speed rr \<longrightarrow>
        position (RemoteRobot_update dr rr) \<noteq> position rr
      \<and> position (RemoteRobot_update dr rr) \<noteq> RemoteRobot_target rr
      \<and> distance (position rr) (position (RemoteRobot_update dr rr))
          = 0.1 * distance (position rr) (RemoteRobot_target rr)
      \<and> distance (position rr) (position (RemoteRobot_update dr rr))
          + distance (position (RemoteRobot_update dr rr)) (RemoteRobot_target rr)
          = distance (position rr) (RemoteRobot_target rr))"
proof -
  have a: "0 < speed ra \<Longrightarrow>
        position (AutonomousRobot_update da ra) \<noteq> position ra
      \<and> position (AutonomousRobot_update da ra) \<noteq> AutonomousRobot_target ra
      \<and> distance (position ra) (position (AutonomousRobot_update da ra))
          = 0.1 * distance (position ra) (AutonomousRobot_target ra)
      \<and> distance (position ra) (position (AutonomousRobot_update da ra))
          + distance (position (AutonomousRobot_update da ra)) (AutonomousRobot_target ra)
          = distance (position ra) (AutonomousRobot_target ra)"
    using tenth_between[of "speed ra" "positionX ra" "positionY ra" "a_orientation ra"]
    unfolding AutonomousRobot_update_position
    by (simp add: AutonomousRobot_target_def position_def)
  have r: "0 < speed rr \<Longrightarrow>
        position (RemoteRobot_update dr rr) \<noteq> position rr
      \<and> position (RemoteRobot_update dr rr) \<noteq> RemoteRobot_target rr
      \<and> distance (position rr) (position (RemoteRobot_update dr rr))
          = 0.1 * distance (position rr) (RemoteRobot_target rr)
      \<and> distance (position rr) (position (RemoteRobot_update dr rr))
          + distance (position (RemoteRobot_update dr rr)) (RemoteRobot_target rr)
          = distance (position rr) (RemoteRobot_target rr)"
    using tenth_between[of "speed rr" "positionX rr" "positionY rr" "r_orientation rr"]
    unfolding RemoteRobot_update_position
    by (simp add: RemoteRobot_target_def position_def)
  from a r show ?thesis
    by (simp only: AutonomousRobot_update_position RemoteRobot_update_position) blast
qed

theorem update_interpolates_witness:
  "0 < speed sampleAutonomous \<and> 0 < speed sampleRemote
   \<and> position (AutonomousRobot_update (\<lambda>r. False) sampleAutonomous) = (101, 100)
   \<and> position (RemoteRobot_update (\<lambda>r. False) sampleRemote) = (101, 100)
   \<and> position (AutonomousRobot_update (\<lambda>r. False) sampleAutonomous) \<noteq> position sampleAutonomous
   \<and> distance (position sampleAutonomous)
        (position (AutonomousRobot_update (\<lambda>r. False) sampleAutonomous))
      = 0.1 * distance (position sampleAutonomous) (AutonomousRobot_target sampleAutonomous)
   \<and> position (RemoteRobot_update (\<lambda>r. False) sampleRemote) \<noteq> position sampleRemote
   \<and> distance (position sampleRemote) (position (RemoteRobot_update (\<lambda>r. False) sampleRemote))
      = 0.1 * distance (position sampleRemote) (RemoteRobot_target sampleRemote)"
proof -
  have h: "0 < speed sampleAutonomous" "0 < speed sampleRemote"
    by (simp_all add: sampleAutonomous_def sampleRemote_def AutonomousRobot_new_def
        RemoteRobot_new_def)
  have p: "position (AutonomousRobot_update (\<lambda>r. False) sampleAutonomous) = (101, 100)"
    "position (RemoteRobot_update (\<lambda>r. False) sampleRemote) = (101, 100)"
    by (simp_all add: AutonomousRobot_update_def RemoteRobot_update_def Let_def position_def
        sampleAutonomous_def sampleRemote_def AutonomousRobot_new_def RemoteRobot_new_def)
  from update_interpolates[of "\<lambda>r. False" sampleAutonomous "\<lambda>r. False" sampleRemote] h p
  show ?thesis by blast
qed

text \<open>
  C2.  After an update the orientation of a robot should lie in [0, 360).  The update of
  an autonomous robot normalises the orientation before it adds the avoidance angle, so
  a robot created facing up (code 0, 270 degrees) with an avoidance angle of 90 degrees
  that detects an obstacle ends its first update with orientation 360.
\<close>

theorem update_leaves_orientation_360:
  "a_orientation (AutonomousRobot_update (\<lambda>r. True) (AutonomousRobot_new 100 100 0 50 90 10))
     = 360"
  by (simp add: AutonomousRobot_update_def AutonomousRobot_new_def Let_def double_to_int_def)

section \<open>Placement of entities\<close>

lemmas scene_defs = sceneItems_def items_def intersects_def translated_def boundingRect_def
  Obstacle_new_def RemoteRobot_new_def AutonomousRobot_new_def emptyWindow_def

lemmas string_defs = trimmed_def isSpace_def newline_def startsWith_def endsWith_def
  isDigit_def digitsValue_def signOf_def toInt_def toDouble_def valueOf_def

lemma classify_fold:
  "fold (\<lambda>item (robotFound, obstacleFound).
             if isRobot item then (True, obstacleFound)
             else if isObstacle item then (robotFound, True)
             else (robotFound, obstacleFound)) xs (a, b)
   = (a \<or> list_ex isRobot xs, b \<or> list_ex isObstacle xs)"
proof (induction xs arbitrary: a b)
  case Nil
  then show ?case by simp
next
  case (Cons x xs)
  then show ?case by (cases x) auto
qed

lemma classify_eq: "classify xs = (list_ex isRobot xs, list_ex isObstacle xs)"
  by (simp add: classify_def classify_fold)

lemma found_kind:
  assumes "xs \<noteq> []" "\<not> list_ex isRobot xs"
  shows "list_ex isObstacle xs"
proof (cases xs)
  case Nil
  with assms(1) show ?thesis by simp
next
  case (Cons x ys)
  with assms(2) show ?thesis by (cases x) auto
qed

lemma items_nonempty:
  "\<exists>item\<in>set (sceneItems w). intersects area (sceneBoundingRect item) \<Longrightarrow> items w area \<noteq> []"
  by (auto simp: items_def filter_empty_conv)

lemma createObstacle_conflict:
  assumes "\<exists>item\<in>set (sceneItems w).
             intersects (creationObstacleArea x y width) (sceneBoundingRect item)"
  shows "createObstacle (Some (x, y, width)) w =
     (w, Some (''Cannot place an obstacle here. The space is already occupied by '' @
               occupant (items w (creationObstacleArea x y width)) ''another obstacle.''))"
proof -
  let ?f = "items w (creationObstacleArea x y width)"
  have ne: "?f \<noteq> []" using assms by (rule items_nonempty)
  have k: "\<not> list_ex isRobot ?f \<Longrightarrow> list_ex isObstacle ?f" using ne by (rule found_kind)
  show ?thesis
    using ne k
    by (simp add: createObstacle_def Let_def classify_eq occupant_def
        creationObstacleArea_def [symmetric])
qed

lemma createRobot_conflict:
  assumes "\<exists>item\<in>set (sceneItems w).
             intersects (creationArea (getX d) (getY d)) (sceneBoundingRect item)"
  shows "createRobot (Some d) w =
     (w, Some (''Cannot place a robot here. The space is already occupied by '' @
               occupant (items w (creationArea (getX d) (getY d))) ''an obstacle.''))"
proof -
  let ?f = "items w (creationArea (getX d) (getY d))"
  have ne: "?f \<noteq> []" using assms by (rule items_nonempty)
  have k: "\<not> list_ex isRobot ?f \<Longrightarrow> list_ex isObstacle ?f" using ne by (rule found_kind)
  show ?thesis
    using ne k
    by (simp add: createRobot_def Let_def classify_eq occupant_def creationArea_def [symmetric])
qed

text \<open>
  C3.  An interactive placement (of an obstacle or of a robot) whose bounding region
  overlaps the bounding region of an entity of the scene is rejected: the warning says
  whether the place is taken by a robot, an obstacle or both, and the state of the
  window is returned unchanged.
\<close>

theorem placement_conflict_rejected:
  "((\<exists>item\<in>set (sceneItems w).
        intersects (creationObstacleArea x y width) (sceneBoundingRect item)) \<longrightarrow>
      createObstacle (Some (x, y, width)) w =
        (w, Some (''Cannot place an obstacle here. The space is already occupied by '' @
                  occupant (items w (creationObstacleArea x y width)) ''another obstacle.'')))
   \<and> ((\<exists>item\<in>set (sceneItems w).
        intersects (creationArea (getX d) (getY d)) (sceneBoundingRect item)) \<longrightarrow>
      createRobot (Some d) w =
        (w, Some (''Cannot place a robot here. The space is already occupied by '' @
                  occupant (items w (creationArea (getX d) (getY d))) ''an obstacle.'')))"
  using createObstacle_conflict[of w x y width] createRobot_conflict[of w d] by blast

theorem placement_conflict_rejected_witness:
  "(\<exists>item\<in>set (sceneItems occupiedScene).
       intersects (creationObstacleArea 15 15 5) (sceneBoundingRect item))
   \<and> (\<exists>item\<in>set (sceneItems occupiedScene).
       intersects (creationArea (getX sampleDialog) (getY sampleDialog)) (sceneBoundingRect item))
   \<and> createObstacle (Some (15, 15, 5)) occupiedScene =
       (occupiedScene,
        Some ''Cannot place an obstacle here. The space is already occupied by another obstacle.'')
   \<and> createRobot (Some sampleDialog) occupiedScene =
       (occupiedScene,
        Some ''Cannot place a robot here. The space is already occupied by another robot.'')"
proof -
  have h1: "\<exists>item\<in>set (sceneItems occupiedScene).
              intersects (creationObstacleArea 15 15 5) (sceneBoundingRect item)"
    by (simp add: occupiedScene_def scene_defs creationObstacleArea_def Let_def)
  have h2: "\<exists>item\<in>set (sceneItems occupiedScene).
              intersects (creationArea (getX sampleDialog) (getY sampleDialog))
                (sceneBoundingRect item)"
    by (simp add: occupiedScene_def sampleDialog_def scene_defs creationArea_def Let_def)
  have o1: "occupant (items occupiedScene (creationObstacleArea 15 15 5)) ''another obstacle.''
              = ''another obstacle.''"
    by (simp add: occupiedScene_def scene_defs creationObstacleArea_def occupant_def Let_def)
  have o2: "occupant (items occupiedScene (creationArea (getX sampleDialog) (getY sampleDialog)))
              ''an obstacle.'' = ''another robot.''"
    by (simp add: occupiedScene_def sampleDialog_def scene_defs creationArea_def occupant_def
        Let_def)
  from placement_conflict_rejected[of occupiedScene 15 15 5 sampleDialog] h1 h2
  show ?thesis by (simp add: o1 o2)
qed

text \<open>
  C4.  Every creation of an entity, from a dialog or from a scene file, should test the
  new bounding region against the entities of the scene.  \<open>processObject\<close> makes no such
  test: a file with the same obstacle block twice yields two obstacles on the same
  square, which intersect; the second placement of that square through the dialog of
  \<open>createObstacle\<close> is refused.
\<close>

theorem load_creates_overlapping_obstacles:
  "obstacles (loadSceneFromFile (Some twoObstaclesFile) emptyWindow)
     = [Obstacle_new 10 10 20, Obstacle_new 10 10 20]
   \<and> intersects (sceneBoundingRect (ItemObstacle (Obstacle_new 10 10 20)))
        (sceneBoundingRect (ItemObstacle (Obstacle_new 10 10 20)))
   \<and> createObstacle (Some (10, 10, 20)) (fst (createObstacle (Some (10, 10, 20)) emptyWindow))
     = (fst (createObstacle (Some (10, 10, 20)) emptyWindow),
        Some ''Cannot place an obstacle here. The space is already occupied by another obstacle.'')"
  by (simp add: twoObstaclesFile_def loadSceneFromFile_def processObject_def
      parseAttributes_def string_defs Let_def scene_defs createObstacle_def classify_def)

section \<open>The field of vision\<close>

lemma viewField_corners:
  "viewField orientation d =
     [offset (real_of_int orientation * pi / 180) 20 (- halfBaseWidth d),
      offset (real_of_int orientation * pi / 180) 20 (halfBaseWidth d),
      offset (real_of_int orientation * pi / 180) (d + 20) (halfTopWidth d),
      offset (real_of_int orientation * pi / 180) (d + 20) (- halfTopWidth d)]"
  by (simp add: viewField_def Let_def rotatePoint_def offset_def mult.commute)

lemma halfBaseWidth_min: "halfBaseWidth d = min (20 / 3) (halfTopWidth d / 4)"
  by (simp add: halfBaseWidth_def Let_def min_def)

lemma coneHalfAngle_30:
  assumes "0 < d"
  shows "coneHalfAngle d = pi / 6"
proof -
  from assms have "halfTopWidth d / d = tan (pi / 6)" by (simp add: halfTopWidth_def)
  then have "coneHalfAngle d = arctan (tan (pi / 6))" by (simp add: coneHalfAngle_def)
  also have "\<dots> = pi / 6" by (rule arctan_tan) (use pi_gt_zero in simp_all)
  finally show ?thesis .
qed

text \<open>
  C7 as stated: the cone drawn by \<open>paint\<close> has a half-angle of 60 degrees.  For a
  detection radius of 50 the half-angle is not \<open>pi / 3\<close>.
\<close>

theorem cone_half_angle_not_60: "coneHalfAngle 50 \<noteq> pi / 3"
proof -
  have "coneHalfAngle 50 = pi / 6" by (rule coneHalfAngle_30) simp
  moreover have "pi / 6 \<noteq> pi / 3" using pi_gt_zero by arith
  ultimately show ?thesis by metis
qed

text \<open>
  C7, amended.  Both \<open>paint\<close> bodies draw the trapezoid whose near edge lies 20 units
  (the radius of the robot) along the heading with half-width
  \<open>min (20 / 3) (halfTopWidth / 4)\<close>, and whose far edge lies \<open>detectionRadius + 20\<close> units
  along the heading with half-width \<open>detectionRadius * tan (pi / 6)\<close>, the widths being
  measured perpendicular to the heading.  For a positive detection radius the half-angle
  of the cone is 30 degrees (the opening is 60 degrees).
\<close>

theorem view_field_geometry:
  "AutonomousRobot_paint ra = viewField (a_orientation ra) (a_detectionRadius ra)
   \<and> RemoteRobot_paint rr = viewField (r_orientation rr) (r_detectionRadius rr)
   \<and> viewField orientation d =
       [offset (real_of_int orientation * pi / 180) 20 (- halfBaseWidth d),
        offset (real_of_int orientation * pi / 180) 20 (halfBaseWidth d),
        offset (real_of_int orientation * pi / 180) (d + 20) (halfTopWidth d),
        offset (real_of_int orientation * pi / 180) (d + 20) (- halfTopWidth d)]
   \<and> halfTopWidth d = d * tan (pi / 6)
   \<and> halfBaseWidth d = min (20 / 3) (halfTopWidth d / 4)
   \<and> (0 < d \<longrightarrow> coneHalfAngle d = pi / 6)"
  using viewField_corners[of orientation d] halfBaseWidth_min[of d] coneHalfAngle_30[of d]
  by (simp add: AutonomousRobot_paint_def RemoteRobot_paint_def halfTopWidth_def)

theorem view_field_geometry_witness:
  "(0::real) < 50 \<and> coneHalfAngle 50 = pi / 6 \<and> halfTopWidth 50 = 50 * tan (pi / 6)
   \<and> halfBaseWidth 50 = min (20 / 3) (halfTopWidth 50 / 4)"
proof -
  have h: "(0::real) < 50" by simp
  from view_field_geometry[of sampleAutonomous sampleRemote 0 50] h show ?thesis by blast
qed

section \<open>Loading: missing keys and the orientation of a remote robot\<close>

lemma toInt_Nil: "toInt [] = 0"
  by (simp add: string_defs)

lemma toDouble_Nil: "toDouble [] = 0"
  by (simp add: string_defs)

lemma valueOf_None: "params key = None \<Longrightarrow> valueOf params key = []"
  by (simp add: valueOf_def)

lemma parseAttributes_Nil: "parseAttributes [] key = None"
  by (simp add: parseAttributes_def string_defs)

text \<open>
  C8 as stated: a block that omits a recognised numeric key produces an entity whose
  field is zero.  An \<open>AutonomousRobot\<close> block without keys produces a robot whose
  orientation is 270.
\<close>

theorem missing_orientation_is_270:
  "a_orientation (last (autonomousRobots (processObject ''AutonomousRobot'' [] emptyWindow)))
     = 270"
  by (simp add: processObject_def parseAttributes_def string_defs Let_def scene_defs)

text \<open>
  C8, amended.  A recognised key that the block omits is read as zero and zero is passed
  to the constructor: the position, speed, detection radius, avoidance angle and width
  of the new entity are then zero.  A missing orientation is the code 0, which the
  constructor of an autonomous robot maps to 270 degrees.  Keys other than the seven
  recognised ones have no effect on the result.
\<close>

theorem missing_keys_read_as_zero:
  "(parseAttributes attrs ''positionX'' = None \<longrightarrow>
      positionX (last (autonomousRobots (processObject ''AutonomousRobot'' attrs w))) = 0
    \<and> positionX (last (remoteRobots (processObject ''RemoteRobot'' attrs w))) = 0
    \<and> ob_x (last (obstacles (processObject ''Obstacle'' attrs w))) = 0)
   \<and> (parseAttributes attrs ''positionY'' = None \<longrightarrow>
      positionY (last (autonomousRobots (processObject ''AutonomousRobot'' attrs w))) = 0
    \<and> positionY (last (remoteRobots (processObject ''RemoteRobot'' attrs w))) = 0
    \<and> ob_y (last (obstacles (processObject ''Obstacle'' attrs w))) = 0)
   \<and> (parseAttributes attrs ''speed'' = None \<longrightarrow>
      speed (last (autonomousRobots (processObject ''AutonomousRobot'' attrs w))) = 0
    \<and> speed (last (remoteRobots (processObject ''RemoteRobot'' attrs w))) = 0)
   \<and> (parseAttributes attrs ''detectionRadius'' = None \<longrightarrow>
      a_detectionRadius (last (autonomousRobots (processObject ''AutonomousRobot'' attrs w))) = 0
    \<and> r_detectionRadius (last (remoteRobots (processObject ''RemoteRobot'' attrs w))) = 0)
   \<and> (parseAttributes attrs ''avoidanceAngle'' = None \<longrightarrow>
      a_avoidanceAngle (last (autonomousRobots (processObject ''AutonomousRobot'' attrs w))) = 0
    \<and> a_angle (last (autonomousRobots (processObject ''AutonomousRobot'' attrs w))) = 0)
   \<and> (parseAttributes attrs ''width'' = None \<longrightarrow>
      ob_width (last (obstacles (processObject ''Obstacle'' attrs w))) = 0)
   \<and> (parseAttributes attrs ''orientation'' = None \<longrightarrow>
      a_orientation (last (autonomousRobots (processObject ''AutonomousRobot'' attrs w))) = 270)
   \<and> (parseAttributes attrs ''positionX'' = parseAttributes attrs' ''positionX''
      \<and> parseAttributes attrs ''positionY'' = parseAttributes attrs' ''positionY''
      \<and> parseAttributes attrs ''speed'' = parseAttributes attrs' ''speed''
      \<and> parseAttributes attrs ''orientation'' = parseAttributes attrs' ''orientation''
      \<and> parseAttributes attrs ''detectionRadius'' = parseAttributes attrs' ''detectionRadius''
      \<and> parseAttributes attrs ''avoidanceAngle'' = parseAttributes attrs' ''avoidanceAngle''
      \<and> parseAttributes attrs ''width'' = parseAttributes attrs' ''width'' \<longrightarrow>
      processObject type attrs w = processObject type attrs' w)"
proof -
  have z: "parseAttributes attrs key = None \<Longrightarrow> toInt (valueOf (parseAttributes attrs) key) = 0
      \<and> toDouble (valueOf (parseAttributes attrs) key) = 0" for key
    by (simp add: valueOf_None toInt_Nil toDouble_Nil)
  have same: "processObject type attrs w = processObject type attrs' w"
    if "parseAttributes attrs ''positionX'' = parseAttributes attrs' ''positionX''
      \<and> parseAttributes attrs ''positionY'' = parseAttributes attrs' ''positionY''
      \<and> parseAttributes attrs ''speed'' = parseAttributes attrs' ''speed''
      \<and> parseAttributes attrs ''orientation'' = parseAttributes attrs' ''orientation''
      \<and> parseAttributes attrs ''detectionRadius'' = parseAttributes attrs' ''detectionRadius''
      \<and> parseAttributes attrs ''avoidanceAngle'' = parseAttributes attrs' ''avoidanceAngle''
      \<and> parseAttributes attrs ''width'' = parseAttributes attrs' ''width''"
  proof -
    from that have "valueOf (parseAttributes attrs) ''positionX'' = valueOf (parseAttributes attrs') ''positionX''"
      "valueOf (parseAttributes attrs) ''positionY'' = valueOf (parseAttributes attrs') ''positionY''"
      "valueOf (parseAttributes attrs) ''speed'' = valueOf (parseAttributes attrs') ''speed''"
      "valueOf (parseAttributes attrs) ''orientation'' = valueOf (parseAttributes attrs') ''orientation''"
      "valueOf (parseAttributes attrs) ''detectionRadius'' = valueOf (parseAttributes attrs') ''detectionRadius''"
      "valueOf (parseAttributes attrs) ''avoidanceAngle'' = valueOf (parseAttributes attrs') ''avoidanceAngle''"
      "valueOf (parseAttributes attrs) ''width'' = valueOf (parseAttributes attrs') ''width''"
      unfolding valueOf_def by simp_all
    then show ?thesis by (simp only: processObject_def Let_def)
  qed
  have a: "last (autonomousRobots (processObject ''AutonomousRobot'' attrs w)) =
      AutonomousRobot_new (real_of_int (toInt (valueOf (parseAttributes attrs) ''positionX'')))
        (real_of_int (toInt (valueOf (parseAttributes attrs) ''positionY'')))
        (toInt (valueOf (parseAttributes attrs) ''orientation''))
        (toDouble (valueOf (parseAttributes attrs) ''detectionRadius''))
        (toDouble (valueOf (parseAttributes attrs) ''avoidanceAngle''))
        (toInt (valueOf (parseAttributes attrs) ''speed''))"
    by (simp add: processObject_def Let_def)
  have r: "last (remoteRobots (processObject ''RemoteRobot'' attrs w)) =
      RemoteRobot_new (real_of_int (toInt (valueOf (parseAttributes attrs) ''positionX'')))
        (real_of_int (toInt (valueOf (parseAttributes attrs) ''positionY'')))
        (toInt (valueOf (parseAttributes attrs) ''speed''))
        (toDouble (valueOf (parseAttributes attrs) ''detectionRadius''))"
    by (simp add: processObject_def Let_def)
  have ob: "last (obstacles (processObject ''Obstacle'' attrs w)) =
      Obstacle_new (real_of_int (toInt (valueOf (parseAttributes attrs) ''positionX'')))
        (real_of_int (toInt (valueOf (parseAttributes attrs) ''positionY'')))
        (real_of_int (toInt (valueOf (parseAttributes attrs) ''width'')))"
    by (simp add: processObject_def Let_def)
  show ?thesis
    unfolding a r ob
    using z[of "''positionX''"] z[of "''positionY''"] z[of "''speed''"] z[of "''orientation''"]
      z[of "''detectionRadius''"] z[of "''avoidanceAngle''"] z[of "''width''"] same
    by (simp add: AutonomousRobot_new_def RemoteRobot_new_def Obstacle_new_def double_to_int_def)
qed

theorem missing_keys_read_as_zero_witness:
  "parseAttributes [] ''positionX'' = None \<and> parseAttributes [] ''positionY'' = None
   \<and> parseAttributes [] ''speed'' = None \<and> parseAttributes [] ''detectionRadius'' = None
   \<and> parseAttributes [] ''avoidanceAngle'' = None \<and> parseAttributes [] ''width'' = None
   \<and> parseAttributes [] ''orientation'' = None
   \<and> parseAttributes [] ''positionX'' = parseAttributes colourBlock ''positionX''
   \<and> parseAttributes [] ''positionY'' = parseAttributes colourBlock ''positionY''
   \<and> parseAttributes [] ''speed'' = parseAttributes colourBlock ''speed''
   \<and> parseAttributes [] ''orientation'' = parseAttributes colourBlock ''orientation''
   \<and> parseAttributes [] ''detectionRadius'' = parseAttributes colourBlock ''detectionRadius''
   \<and> parseAttributes [] ''avoidanceAngle'' = parseAttributes colourBlock ''avoidanceAngle''
   \<and> parseAttributes [] ''width'' = parseAttributes colourBlock ''width''
   \<and> positionX (last (autonomousRobots (processObject ''AutonomousRobot'' [] emptyWindow))) = 0
   \<and> speed (last (remoteRobots (processObject ''RemoteRobot'' [] emptyWindow))) = 0
   \<and> ob_width (last (obstacles (processObject ''Obstacle'' [] emptyWindow))) = 0
   \<and> a_orientation (last (autonomousRobots (processObject ''AutonomousRobot'' [] emptyWindow)))
       = 270
   \<and> processObject ''Obstacle'' [] emptyWindow
       = processObject ''Obstacle'' colourBlock emptyWindow"
proof -
  have k: "parseAttributes colourBlock key
             = (if key = ''colour'' then Some ''red'' else None)" for key
    by (simp add: colourBlock_def parseAttributes_def string_defs)
  have h: "parseAttributes [] ''positionX'' = parseAttributes colourBlock ''positionX''"
    "parseAttributes [] ''positionY'' = parseAttributes colourBlock ''positionY''"
    "parseAttributes [] ''speed'' = parseAttributes colourBlock ''speed''"
    "parseAttributes [] ''orientation'' = parseAttributes colourBlock ''orientation''"
    "parseAttributes [] ''detectionRadius'' = parseAttributes colourBlock ''detectionRadius''"
    "parseAttributes [] ''avoidanceAngle'' = parseAttributes colourBlock ''avoidanceAngle''"
    "parseAttributes [] ''width'' = parseAttributes colourBlock ''width''"
    by (simp_all add: k parseAttributes_Nil)
  have n: "parseAttributes [] ''positionX'' = None" "parseAttributes [] ''positionY'' = None"
    "parseAttributes [] ''speed'' = None" "parseAttributes [] ''detectionRadius'' = None"
    "parseAttributes [] ''avoidanceAngle'' = None" "parseAttributes [] ''width'' = None"
    "parseAttributes [] ''orientation'' = None"
    by (rule parseAttributes_Nil)+
  from missing_keys_read_as_zero[of "[]" emptyWindow colourBlock "''Obstacle''"] h n
  show ?thesis by blast
qed

text \<open>
  C10.  A remote robot is created with orientation 0 whatever the input: the constructor
  has no orientation parameter, a \<open>RemoteRobot\<close> block of a scene file yields a robot
  with orientation 0 whatever its \<open>orientation\<close> key says, and for a remote robot the
  orientation chosen in the dialog does not change what \<open>createRobot\<close> does.
\<close>

theorem remote_robot_created_facing_right:
  "r_orientation (RemoteRobot_new posX posY spd detectionRadius) = 0
   \<and> r_orientation (last (remoteRobots (processObject ''RemoteRobot'' attrs w))) = 0
   \<and> (parseAttributes attrs ''positionX'' = parseAttributes attrs' ''positionX''
      \<and> parseAttributes attrs ''positionY'' = parseAttributes attrs' ''positionY''
      \<and> parseAttributes attrs ''speed'' = parseAttributes attrs' ''speed''
      \<and> parseAttributes attrs ''detectionRadius'' = parseAttributes attrs' ''detectionRadius''
      \<longrightarrow> processObject ''RemoteRobot'' attrs w = processObject ''RemoteRobot'' attrs' w)
   \<and> (getRobotType d \<noteq> 0 \<longrightarrow>
        createRobot (Some (d\<lparr>getOrientation := orient\<rparr>)) w = createRobot (Some d) w)
   \<and> (getRobotType d \<noteq> 0 \<and> items w (creationArea (getX d) (getY d)) = [] \<longrightarrow>
        fst (createRobot (Some d) w) =
          w\<lparr>remoteRobots := remoteRobots w @
               [RemoteRobot_new (getX d) (getY d) (getSpeed d) (getDetectionRadius d)]\<rparr>)"
  by (simp add: processObject_def createRobot_def Let_def RemoteRobot_new_def creationArea_def
      valueOf_def)

theorem remote_robot_created_facing_right_witness:
  "getRobotType remoteDialog \<noteq> 0
   \<and> items occupiedScene (creationArea (getX remoteDialog) (getY remoteDialog)) = []
   \<and> parseAttributes orientation2Block ''positionX''
       = parseAttributes orientation3Block ''positionX''
   \<and> parseAttributes orientation2Block ''positionY''
       = parseAttributes orientation3Block ''positionY''
   \<and> parseAttributes orientation2Block ''speed''
       = parseAttributes orientation3Block ''speed''
   \<and> parseAttributes orientation2Block ''detectionRadius''
       = parseAttributes orientation3Block ''detectionRadius''
   \<and> processObject ''RemoteRobot'' orientation2Block emptyWindow
       = processObject ''RemoteRobot'' orientation3Block emptyWindow
   \<and> r_orientation (last (remoteRobots
         (processObject ''RemoteRobot'' orientation2Block emptyWindow))) = 0
   \<and> createRobot (Some (remoteDialog\<lparr>getOrientation := 3\<rparr>)) occupiedScene
       = createRobot (Some remoteDialog) occupiedScene
   \<and> fst (createRobot (Some remoteDialog) occupiedScene) =
       occupiedScene\<lparr>remoteRobots := remoteRobots occupiedScene @
          [RemoteRobot_new (getX remoteDialog) (getY remoteDialog) (getSpeed remoteDialog)
             (getDetectionRadius remoteDialog)]\<rparr>"
proof -
  have h1: "getRobotType remoteDialog \<noteq> 0" by (simp add: remoteDialog_def)
  have h2: "items occupiedScene (creationArea (getX remoteDialog) (getY remoteDialog)) = []"
    by (simp add: occupiedScene_def remoteDialog_def scene_defs creationArea_def Let_def)
  have k: "parseAttributes orientation2Block key
             = (if key = ''orientation'' then Some ''2'' else None)"
    "parseAttributes orientation3Block key
             = (if key = ''orientation'' then Some ''3'' else None)" for key
    by (simp_all add: orientation2Block_def orientation3Block_def parseAttributes_def string_defs)
  have e: "parseAttributes orientation2Block ''positionX''
             = parseAttributes orientation3Block ''positionX''"
    "parseAttributes orientation2Block ''positionY''
       = parseAttributes orientation3Block ''positionY''"
    "parseAttributes orientation2Block ''speed'' = parseAttributes orientation3Block ''speed''"
    "parseAttributes orientation2Block ''detectionRadius''
       = parseAttributes orientation3Block ''detectionRadius''"
    by (simp_all add: k)
  from remote_robot_created_facing_right[of 0 0 0 0 orientation2Block
      emptyWindow orientation3Block remoteDialog 3]
    remote_robot_created_facing_right[of 0 0 0 0 orientation2Block
      occupiedScene orientation3Block remoteDialog 3]
    h1 h2 e
  show ?thesis by blast
qed

section \<open>The simulation tick\<close>

subsection \<open>The loop over the autonomous robots\<close>

lemma updateAutonomous_frame:
  "remoteRobots (updateAutonomous b i w) = remoteRobots w"
  "selectedRobot (updateAutonomous b i w) = selectedRobot w"
  "timerActive (updateAutonomous b i w) = timerActive w"
  "length (autonomousRobots (updateAutonomous b i w)) = length (autonomousRobots w)"
  "updateCalls (updateAutonomous b i w) = updateCalls w @ [AutonomousUpdate i]"
  by (simp_all add: updateAutonomous_def)

lemma fold_updateAutonomous:
  "remoteRobots (fold (updateAutonomous b) is w) = remoteRobots w
   \<and> selectedRobot (fold (updateAutonomous b) is w) = selectedRobot w
   \<and> timerActive (fold (updateAutonomous b) is w) = timerActive w
   \<and> length (autonomousRobots (fold (updateAutonomous b) is w)) = length (autonomousRobots w)
   \<and> updateCalls (fold (updateAutonomous b) is w) = updateCalls w @ map AutonomousUpdate is"
  by (induction "is" arbitrary: w) (simp_all add: updateAutonomous_frame)

subsection \<open>The commands on the selected robot\<close>

lemma onSelected_frame:
  "length (remoteRobots (onSelected f w)) = length (remoteRobots w)"
  "selectedRobot (onSelected f w) = selectedRobot w"
  "timerActive (onSelected f w) = timerActive w"
  "updateCalls (onSelected f w) = updateCalls w"
  "autonomousRobots (onSelected f w) = autonomousRobots w"
  by (simp_all add: onSelected_def split: option.splits)

lemma rotateRobotRight_nth:
  "k < length (remoteRobots w) \<Longrightarrow>
   remoteRobots (rotateRobotRight b w) ! k =
     (if selectedRobot w = Some k \<and> timerActive w then rotateRight b (remoteRobots w ! k)
      else remoteRobots w ! k)"
  by (auto simp: rotateRobotRight_def onSelected_def nth_list_update split: option.splits)

lemma rotateRobotLeft_nth:
  "k < length (remoteRobots w) \<Longrightarrow>
   remoteRobots (rotateRobotLeft b w) ! k =
     (if selectedRobot w = Some k \<and> timerActive w then rotateLeft b (remoteRobots w ! k)
      else remoteRobots w ! k)"
  by (auto simp: rotateRobotLeft_def onSelected_def nth_list_update split: option.splits)

lemma keepsStillD:
  assumes "keepsStill b"
  shows "isMoving (rotateRight b r) = isMoving r" "position (rotateRight b r) = position r"
    "isMoving (rotateLeft b r) = isMoving r" "position (rotateLeft b r) = position r"
  using assms unfolding keepsStill_def by blast+

lemma keepsStill_specBodies: "keepsStill specBodies"
  by (simp add: keepsStill_def specBodies_def position_def)

subsection \<open>The loop over the remote robots\<close>

lemma updateRemote_alt:
  "updateRemote b j w =
     (if isMoving (remoteRobots (rotated b j w) ! j)
      then (rotated b j w)\<lparr>remoteRobots :=
                   (remoteRobots (rotated b j w))
                     [j := RemoteRobot_update (detectObstacleR b (rotated b j w))
                             (remoteRobots (rotated b j w) ! j)],
                 updateCalls := updateCalls (rotated b j w) @ [RemoteUpdate j]\<rparr>
      else rotated b j w)"
  by (simp add: updateRemote_def rotated_def Let_def)

lemma rotated_frame:
  "length (remoteRobots (rotated b j w)) = length (remoteRobots w)"
  "selectedRobot (rotated b j w) = selectedRobot w"
  "timerActive (rotated b j w) = timerActive w"
  "updateCalls (rotated b j w) = updateCalls w"
  "autonomousRobots (rotated b j w) = autonomousRobots w"
  by (simp_all add: rotated_def rotateRobotRight_def rotateRobotLeft_def onSelected_frame)

lemma rotated_still:
  assumes "keepsStill b" "k < length (remoteRobots w)"
  shows "isMoving (remoteRobots (rotated b j w) ! k) = isMoving (remoteRobots w ! k)"
    and "position (remoteRobots (rotated b j w) ! k) = position (remoteRobots w ! k)"
  using assms(2)
  by (simp_all add: rotated_def rotateRobotRight_nth rotateRobotLeft_nth
      keepsStillD[OF assms(1)])

lemma updateRemote_frame:
  "length (remoteRobots (updateRemote b j w)) = length (remoteRobots w)"
  "selectedRobot (updateRemote b j w) = selectedRobot w"
  "timerActive (updateRemote b j w) = timerActive w"
  "autonomousRobots (updateRemote b j w) = autonomousRobots w"
  by (simp_all add: updateRemote_alt rotated_frame)

lemma updateRemote_calls:
  assumes "keepsStill b" "j < length (remoteRobots w)"
  shows "updateCalls (updateRemote b j w) =
     updateCalls w @ (if isMoving (remoteRobots w ! j) then [RemoteUpdate j] else [])"
  using rotated_still(1)[OF assms, of j]
  by (simp add: updateRemote_alt rotated_frame)

lemma updateRemote_other_moving:
  assumes "keepsStill b" "k < length (remoteRobots w)" "k \<noteq> j"
  shows "isMoving (remoteRobots (updateRemote b j w) ! k) = isMoving (remoteRobots w ! k)"
  using rotated_still(1)[OF assms(1,2), of j] assms(3)
  by (simp add: updateRemote_alt)

lemma fold_updateRemote_calls:
  assumes "keepsStill b"
  shows "distinct js \<Longrightarrow> \<forall>j\<in>set js. j < length (remoteRobots w) \<Longrightarrow>
     updateCalls (fold (updateRemote b) js w) =
       updateCalls w @ map RemoteUpdate (filter (\<lambda>j. isMoving (remoteRobots w ! j)) js)"
proof (induction js arbitrary: w)
  case Nil
  then show ?case by simp
next
  case (Cons j js)
  let ?w = "updateRemote b j w"
  have len: "length (remoteRobots ?w) = length (remoteRobots w)" by (rule updateRemote_frame)
  have j: "j < length (remoteRobots w)" and notin: "j \<notin> set js" and d: "distinct js"
    and bound: "\<forall>k\<in>set js. k < length (remoteRobots w)"
    using Cons.prems by simp_all
  have same: "isMoving (remoteRobots ?w ! k) = isMoving (remoteRobots w ! k)"
    if "k \<in> set js" for k
  proof -
    from that bound have "k < length (remoteRobots w)" by blast
    moreover from that notin have "k \<noteq> j" by blast
    ultimately show ?thesis using assms by (rule updateRemote_other_moving[rotated])
  qed
  have bound': "\<forall>k\<in>set js. k < length (remoteRobots ?w)" using bound len by simp
  have feq: "filter (\<lambda>j. isMoving (remoteRobots ?w ! j)) js
           = filter (\<lambda>j. isMoving (remoteRobots w ! j)) js"
    by (rule filter_cong) (simp_all add: same)
  have calls: "updateCalls ?w =
     updateCalls w @ (if isMoving (remoteRobots w ! j) then [RemoteUpdate j] else [])"
    using assms j by (rule updateRemote_calls)
  have "updateCalls (fold (updateRemote b) (j # js) w)
          = updateCalls (fold (updateRemote b) js ?w)"
    by simp
  also have "\<dots> = updateCalls ?w
       @ map RemoteUpdate (filter (\<lambda>j. isMoving (remoteRobots ?w ! j)) js)"
    using d bound' by (rule Cons.IH)
  also have "\<dots> = updateCalls ?w
       @ map RemoteUpdate (filter (\<lambda>j. isMoving (remoteRobots w ! j)) js)"
    by (simp only: feq)
  also have "\<dots> =
       (updateCalls w @ (if isMoving (remoteRobots w ! j) then [RemoteUpdate j] else []))
       @ map RemoteUpdate (filter (\<lambda>j. isMoving (remoteRobots w ! j)) js)"
    by (simp only: calls)
  also have "\<dots> = updateCalls w
       @ map RemoteUpdate (filter (\<lambda>j. isMoving (remoteRobots w ! j)) (j # js))"
    by simp
  finally show ?case .
qed

lemma updateRobots_calls:
  assumes "keepsStill b"
  shows "updateCalls (updateRobots b w) =
     updateCalls w @ map AutonomousUpdate [0..<length (autonomousRobots w)]
       @ map RemoteUpdate
           (filter (\<lambda>j. isMoving (remoteRobots w ! j)) [0..<length (remoteRobots w)])"
proof -
  let ?w1 = "fold (updateAutonomous b) [0..<length (autonomousRobots w)] w"
  have r: "remoteRobots ?w1 = remoteRobots w"
    and c: "updateCalls ?w1
              = updateCalls w @ map AutonomousUpdate [0..<length (autonomousRobots w)]"
    using fold_updateAutonomous[of b "[0..<length (autonomousRobots w)]" w] by blast+
  have "updateCalls (updateRobots b w) =
          updateCalls (fold (updateRemote b) [0..<length (remoteRobots ?w1)] ?w1)"
    by (simp only: updateRobots_def Let_def)
  also have "\<dots> = updateCalls ?w1 @ map RemoteUpdate
       (filter (\<lambda>j. isMoving (remoteRobots ?w1 ! j)) [0..<length (remoteRobots ?w1)])"
    by (rule fold_updateRemote_calls[OF assms]) simp_all
  also have "\<dots> = updateCalls w @ map AutonomousUpdate [0..<length (autonomousRobots w)]
       @ map RemoteUpdate
           (filter (\<lambda>j. isMoving (remoteRobots w ! j)) [0..<length (remoteRobots w)])"
    by (simp only: r c append_assoc)
  finally show ?thesis .
qed

subsection \<open>A remote robot that stands still\<close>





subsection \<open>A tick without pending rotation\<close>










subsection \<open>A tick with no rotation pending before the robot\<close>



lemma noPending_upTo: "noPendingRotation w \<Longrightarrow> noRotationUpTo j w"
  by (simp add: noPendingRotation_def noRotationUpTo_def list_all_length)









subsection \<open>The properties of the tick\<close>

lemma oneRobot_facts:
  "remoteRobots oneRobot = [sampleRemote]" "autonomousRobots oneRobot = []"
  "selectedRobot oneRobot = Some 0" "timerActive oneRobot" "updateCalls oneRobot = []"
  "\<not> isMoving sampleRemote" "r_orientation sampleRemote = 0"
  "position sampleRemote = (100, 100)" "speed sampleRemote = 10"
  "noPendingRotation oneRobot"
  by (simp_all add: oneRobot_def emptyWindow_def sampleRemote_def RemoteRobot_new_def
      position_def noPendingRotation_def)




text \<open>
  C6 as stated: a tick calls \<open>update\<close> on every robot of the scene exactly once.  In a
  running scene whose only robot is a remote robot that stands still, a tick calls
  \<open>update\<close> on no robot.
\<close>

theorem tick_skips_standing_robot:
  "remoteRobots oneRobot = [sampleRemote] \<and> updateCalls (updateRobots specBodies oneRobot) = []"
  using updateRobots_calls[OF keepsStill_specBodies, of oneRobot]
  by (simp add: oneRobot_facts)

text \<open>
  C6, amended.  A tick calls \<open>update\<close> exactly once on every autonomous robot, in the
  order of the list, and then exactly once on every remote robot whose moving flag is
  set, in the order of the list; it does not call \<open>update\<close> on a remote robot whose
  moving flag is false.  (For rotation commands that leave the moving flags alone.)
\<close>

theorem tick_update_calls:
  "keepsStill b \<Longrightarrow>
   updateCalls (updateRobots b w) =
     updateCalls w @ map AutonomousUpdate [0..<length (autonomousRobots w)]
       @ map RemoteUpdate
           (filter (\<lambda>j. isMoving (remoteRobots w ! j)) [0..<length (remoteRobots w)])"
  by (rule updateRobots_calls)

theorem tick_update_calls_witness:
  "keepsStill specBodies
   \<and> updateCalls (updateRobots specBodies mixedScene) = [AutonomousUpdate 0, RemoteUpdate 1]"
proof -
  have h: "keepsStill specBodies" by (rule keepsStill_specBodies)
  have u: "[0..<2] = [0, Suc 0]" by (simp add: upt_conv_Cons)
  from tick_update_calls[OF h, of mixedScene] h show ?thesis
    by (simp add: mixedScene_def emptyWindow_def sampleRemote_def RemoteRobot_new_def
        moveForward_def u)
qed

text \<open>
  C9.  The tick should consume the rotation intent of the robot that holds it: adjust
  the orientation of that robot and reset its intent.  \<open>updateRobots\<close> reads the intent
  of the robot of the loop and then calls \<open>rotateRobotRight\<close>, which acts on the
  selected robot.  With two remote robots, the first holding \<open>RotateRight\<close> and the
  second selected, a tick leaves the first robot as it was, intent included, whatever
  the rotation command does, and applies the command to the second robot.
\<close>

theorem tick_rotates_selected_robot_instead:
  "remoteRobots (updateRobots b twoRobots) ! 0 = robotA
   \<and> rotationDirection (remoteRobots (updateRobots b twoRobots) ! 0) = RotateRight
   \<and> r_orientation (remoteRobots (updateRobots b twoRobots) ! 0) = r_orientation robotA
   \<and> remoteRobots (updateRemote b 0 twoRobots) = [robotA, rotateRight b robotB]"
proof -
  have u: "[0..<2] = [0, Suc 0]" by (simp add: upt_conv_Cons)
  have s0: "updateRemote b 0 twoRobots
              = twoRobots\<lparr>remoteRobots := [robotA, rotateRight b robotB]\<rparr>"
    by (simp add: updateRemote_def twoRobots_def robotA_def robotB_def RemoteRobot_new_def
        emptyWindow_def getRotationDirection_def rotateRobotRight_def onSelected_def Let_def)
  have s1: "remoteRobots (updateRemote b (Suc 0)
              (twoRobots\<lparr>remoteRobots := [robotA, rotateRight b robotB]\<rparr>)) ! 0 = robotA"
    by (simp add: updateRemote_def twoRobots_def emptyWindow_def
        rotateRobotRight_def rotateRobotLeft_def onSelected_def Let_def)
  have a: "autonomousRobots twoRobots = []" and l: "length (remoteRobots twoRobots) = 2"
    by (simp_all add: twoRobots_def emptyWindow_def)
  have "updateRobots b twoRobots = updateRemote b (Suc 0) (updateRemote b 0 twoRobots)"
    by (simp add: updateRobots_def Let_def a l u)
  then have r: "remoteRobots (updateRobots b twoRobots) ! 0 = robotA"
    by (simp only: s0 s1)
  have d: "rotationDirection robotA = RotateRight" by (simp add: robotA_def)
  have "remoteRobots (updateRemote b 0 twoRobots) = [robotA, rotateRight b robotB]"
    by (simp add: s0)
  with r d show ?thesis by simp
qed

end
